theory Spec2Isabelle
  imports Main
begin

section \<open>The cyclic countdown timer\<close>

text \<open>
  The repository implements one countdown timer three times: as a function component with
  inline effects and as a class component (both in \<^verbatim>\<open>08-basics/04-effect/src/components/Timer.tsx\<close>),
  and as the custom hook \<^verbatim>\<open>useTimer\<close> with the component that calls it. The counter is a
  JavaScript number that counts seconds; it is modelled as an integer, so fractional cycle
  lengths are left out. Everything the components leave to their environment is written out: the host's
  repeating timers, the queue of state updates, and the render and effect cycle that React
  runs on that queue.
\<close>

subsection \<open>The host's repeating timers\<close>

text \<open>
  \<^verbatim>\<open>setInterval\<close> registers a callback and returns a fresh handle, a positive number;
  \<^verbatim>\<open>clearInterval\<close> removes the handle from the registered timers and does nothing else,
  whether or not the handle was registered. \<open>cleared\<close> records the calls of
  \<^verbatim>\<open>clearInterval\<close>, oldest first, so that they can be counted.
\<close>

record scheduler =
  issued :: nat
  live :: "nat list"
  cleared :: "nat list"

definition setInterval :: "scheduler \<Rightarrow> nat \<times> scheduler" where
  "setInterval h =
     (Suc (issued h), h\<lparr>issued := Suc (issued h), live := Suc (issued h) # live h\<rparr>)"

definition clearInterval :: "nat \<Rightarrow> scheduler \<Rightarrow> scheduler" where
  "clearInterval i h = h\<lparr>live := removeAll i (live h), cleared := cleared h @ [i]\<rparr>"

definition idle :: scheduler where
  "idle = \<lparr>issued = 0, live = [], cleared = []\<rparr>"

subsection \<open>State updates\<close>

text \<open>
  A state setter takes either the next value or a function of the previous value. The
  updates queued since the last render are applied in order, each to the result of the ones
  before it.
\<close>

datatype SetStateAction = Value int | Updater "int \<Rightarrow> int"

fun apply_action :: "int \<Rightarrow> SetStateAction \<Rightarrow> int" where
  "apply_action c (Value v) = v"
| "apply_action c (Updater f) = f c"

subsection \<open>The function component and the hook\<close>

text \<open>
  \<open>maxCount\<close> is the argument of the latest render, \<open>countLeft\<close> the state cell,
  \<open>queue\<close> the calls of \<^verbatim>\<open>setCountLeft\<close> not yet rendered, \<open>rendered\<close> the value of
  \<open>countLeft\<close> that each render so far returned to its consumer, \<open>timerId\<close> the handle
  that the cleanup of the first effect holds, and \<open>deps\<close> the dependency values
  \<^verbatim>\<open>[countLeft, maxCount]\<close> at the last run of the second effect of \<^verbatim>\<open>useTimer\<close>.
\<close>

record hook =
  maxCount :: int
  countLeft :: int
  queue :: "SetStateAction list"
  rendered :: "int list"
  deps :: "(int \<times> int) option"
  timerId :: "nat option"

definition setCountLeft :: "SetStateAction \<Rightarrow> hook \<Rightarrow> hook" where
  "setCountLeft a t = t\<lparr>queue := queue t @ [a]\<rparr>"

definition tick :: "hook \<Rightarrow> hook" where
  "tick t = setCountLeft (Updater (\<lambda>c. c - 1)) t"

definition reset :: "hook \<Rightarrow> hook" where
  "reset t = setCountLeft (Value (maxCount t)) t"

text \<open>The body of the second effect: the boundary rule.\<close>

definition boundary_effect :: "hook \<Rightarrow> hook" where
  "boundary_effect t = (if countLeft t = 0 then setCountLeft (Value (maxCount t)) t else t)"

text \<open>
  The two variants differ in the second effect's dependency array only: the component with
  inline effects has none, so the effect runs after every render; \<^verbatim>\<open>useTimer\<close> gives
  \<^verbatim>\<open>[countLeft, maxCount]\<close>, so the effect runs after a render in which one of the two
  differs from the values of its last run.
\<close>

datatype effect_deps = EveryRender | OnChange

definition next_state :: "hook \<Rightarrow> int" where
  "next_state t = foldl apply_action (countLeft t) (queue t)"

definition render :: "hook \<Rightarrow> hook" where
  "render t =
     t\<lparr>countLeft := next_state t, queue := [], rendered := rendered t @ [next_state t]\<rparr>"

definition run_effects :: "effect_deps \<Rightarrow> hook \<Rightarrow> hook" where
  "run_effects d t =
     (case d of
        EveryRender \<Rightarrow> boundary_effect t
      | OnChange \<Rightarrow>
          if deps t = Some (countLeft t, maxCount t) then t
          else boundary_effect (t\<lparr>deps := Some (countLeft t, maxCount t)\<rparr>))"

definition commit :: "effect_deps \<Rightarrow> hook \<Rightarrow> hook" where
  "commit d t = run_effects d (render t)"

text \<open>
  React renders while updates are queued. When the queued updates leave the state as it
  is, React drops them without rendering and without running effects; otherwise it renders,
  commits and runs the effects, which may queue an update again.
\<close>

function flush :: "effect_deps \<Rightarrow> hook \<Rightarrow> hook" where
  "flush d t =
     (if queue t = [] then t
      else if next_state t = countLeft t then t\<lparr>queue := []\<rparr>
      else flush d (commit d t))"
  by pat_completeness auto
termination
  by (relation "measure (\<lambda>(d, t).
        if queue t = [] then 0
        else if countLeft t = 0 \<and> queue t = [Value (maxCount t)] then 1 else 2)")
     (auto simp: commit_def run_effects_def boundary_effect_def render_def
        setCountLeft_def next_state_def split: if_splits effect_deps.splits)

declare flush.simps [simp del]

text \<open>
  Mounting: the first render returns the initial state \<open>maxCount\<close>, then the first effect
  starts the interval and the second applies the boundary rule.
\<close>

definition mount :: "effect_deps \<Rightarrow> int \<Rightarrow> scheduler \<Rightarrow> hook \<times> scheduler" where
  "mount d m h =
     (let (i, h') = setInterval h;
          t = \<lparr>maxCount = m, countLeft = m, queue = [], rendered = [m], deps = None,
               timerId = Some i\<rparr>
      in (flush d (run_effects d t), h'))"

definition useTimer :: "int \<Rightarrow> scheduler \<Rightarrow> hook \<times> scheduler" where
  "useTimer m h = mount OnChange m h"

text \<open>The parameter default \<^verbatim>\<open>{ maxCount = 60 }\<close>: an absent property is \<open>None\<close>.\<close>

definition maxCount_default :: "int option \<Rightarrow> int" where
  "maxCount_default props = (case props of None \<Rightarrow> 60 | Some m \<Rightarrow> m)"

definition Timer :: "int option \<Rightarrow> scheduler \<Rightarrow> hook \<times> scheduler" where
  "Timer props h = mount EveryRender (maxCount_default props) h"

definition Timer_useTimer :: "int option \<Rightarrow> scheduler \<Rightarrow> hook \<times> scheduler" where
  "Timer_useTimer props h = useTimer (maxCount_default props) h"

text \<open>
  The events of a mounted component: a firing of the interval, a click on the reset
  button, a render by the parent with a new argument, and the cleanup of the first effect.
\<close>

definition tick_event :: "effect_deps \<Rightarrow> hook \<Rightarrow> hook" where
  "tick_event d t = flush d (tick t)"

definition reset_event :: "effect_deps \<Rightarrow> hook \<Rightarrow> hook" where
  "reset_event d t = flush d (reset t)"


definition cleanup :: "hook \<Rightarrow> scheduler \<Rightarrow> scheduler" where
  "cleanup t h = (case timerId t of None \<Rightarrow> h | Some i \<Rightarrow> clearInterval i h)"

subsection \<open>The class component\<close>

text \<open>
  The instance fields \<^verbatim>\<open>this.props.maxCount\<close>, \<^verbatim>\<open>this.initialCount\<close>,
  \<^verbatim>\<open>this.state.countLeft\<close> and \<^verbatim>\<open>this.timerId\<close>, and the calls of
  \<^verbatim>\<open>setState\<close> not yet rendered.
\<close>

record Timer_class =
  props_maxCount :: "int option"
  initialCount :: int
  state_countLeft :: int
  this_timerId :: "nat option"
  updates :: "SetStateAction list"

definition Timer_constructor :: "int option \<Rightarrow> Timer_class" where
  "Timer_constructor props =
     \<lparr>props_maxCount = props,
      initialCount = (case props of None \<Rightarrow> 60 | Some m \<Rightarrow> m),
      state_countLeft = (case props of None \<Rightarrow> 60 | Some m \<Rightarrow> m),
      this_timerId = None,
      updates = []\<rparr>"

definition setState :: "SetStateAction \<Rightarrow> Timer_class \<Rightarrow> Timer_class" where
  "setState a t = t\<lparr>updates := updates t @ [a]\<rparr>"

definition Timer_tick :: "Timer_class \<Rightarrow> Timer_class" where
  "Timer_tick t = setState (Updater (\<lambda>c. c - 1)) t"

definition Timer_reset :: "Timer_class \<Rightarrow> Timer_class" where
  "Timer_reset t = setState (Value (initialCount t)) t"

definition componentDidMount :: "Timer_class \<Rightarrow> scheduler \<Rightarrow> Timer_class \<times> scheduler" where
  "componentDidMount t h = (let (i, h') = setInterval h in (t\<lparr>this_timerId := Some i\<rparr>, h'))"

definition componentDidUpdate :: "Timer_class \<Rightarrow> Timer_class" where
  "componentDidUpdate t = (if state_countLeft t = 0 then Timer_reset t else t)"

text \<open>\<^verbatim>\<open>if (this.timerId)\<close> holds for a handle that is neither null nor 0.\<close>

definition componentWillUnmount :: "Timer_class \<Rightarrow> scheduler \<Rightarrow> Timer_class \<times> scheduler" where
  "componentWillUnmount t h =
     (case this_timerId t of
        None \<Rightarrow> (t, h)
      | Some i \<Rightarrow> if i \<noteq> 0 then (t, clearInterval i h) else (t, h))"

definition Timer_render :: "Timer_class \<Rightarrow> Timer_class" where
  "Timer_render t =
     t\<lparr>state_countLeft := foldl apply_action (state_countLeft t) (updates t), updates := []\<rparr>"

text \<open>
  An update of a class component always renders and then calls
  \<^verbatim>\<open>componentDidUpdate\<close>, and does so again while that call queues an update. With
  \<open>initialCount = 0\<close> an update that renders 0 repeats without end: the result is \<open>None\<close>.
\<close>

partial_function (option) Timer_update :: "Timer_class \<Rightarrow> Timer_class option" where
  "Timer_update t =
     (if updates (componentDidUpdate (Timer_render t)) = []
      then Some (componentDidUpdate (Timer_render t))
      else Timer_update (componentDidUpdate (Timer_render t)))"

definition Timer_mount :: "int option \<Rightarrow> scheduler \<Rightarrow> Timer_class \<times> scheduler" where
  "Timer_mount props h = componentDidMount (Timer_constructor props) h"

definition Timer_tick_event :: "Timer_class \<Rightarrow> Timer_class option" where
  "Timer_tick_event t = Timer_update (Timer_tick t)"

definition Timer_reset_event :: "Timer_class \<Rightarrow> Timer_class option" where
  "Timer_reset_event t = Timer_update (Timer_reset t)"

definition Timer_receive_props :: "int option \<Rightarrow> Timer_class \<Rightarrow> Timer_class option" where
  "Timer_receive_props props t = Timer_update (t\<lparr>props_maxCount := props\<rparr>)"


subsection \<open>Settled states and runs of events\<close>





section \<open>Properties\<close>

subsection \<open>Construction\<close>

lemma flush_idle: "queue t = [] \<Longrightarrow> flush d t = t"
  by (simp add: flush.simps)

lemma flush_same: "queue t \<noteq> [] \<Longrightarrow> next_state t = countLeft t \<Longrightarrow> flush d t = t\<lparr>queue := []\<rparr>"
  by (simp add: flush.simps)

lemma mount_state:
  "fst (mount d m h) =
     \<lparr>maxCount = m, countLeft = m, queue = [], rendered = [m],
      deps = (case d of EveryRender \<Rightarrow> None | OnChange \<Rightarrow> Some (m, m)),
      timerId = Some (Suc (issued h))\<rparr>"
proof (cases "m = 0")
  case True
  then show ?thesis
    by (cases d)
      (simp_all add: mount_def setInterval_def run_effects_def boundary_effect_def
        setCountLeft_def flush_same next_state_def)
next
  case False
  then show ?thesis
    by (cases d)
      (simp_all add: mount_def setInterval_def run_effects_def boundary_effect_def flush_idle)
qed

text \<open>
  C9. Constructed without a configuration, the timer takes the cycle length 60 and starts
  with \<open>countLeft = 60\<close>: in the function component, in the component built on
  \<^verbatim>\<open>useTimer\<close>, and in the class component.
\<close>

theorem default_cycle_length:
  "maxCount (fst (Timer None h)) = 60 \<and> countLeft (fst (Timer None h)) = 60
   \<and> maxCount (fst (Timer_useTimer None h)) = 60 \<and> countLeft (fst (Timer_useTimer None h)) = 60
   \<and> initialCount (fst (Timer_mount None h)) = 60
   \<and> state_countLeft (fst (Timer_mount None h)) = 60"
  by (simp add: Timer_def Timer_useTimer_def useTimer_def maxCount_default_def mount_state
      Timer_mount_def componentDidMount_def setInterval_def Timer_constructor_def)

subsection \<open>One update cycle of the hook\<close>

lemmas hook_defs = tick_event_def reset_event_def tick_def reset_def setCountLeft_def
  next_state_def commit_def run_effects_def boundary_effect_def render_def

lemma queue_flush: "queue (flush d t) = []"
  by (induction d t rule: flush.induct) (simp add: flush.simps)





lemma reset_ev:
  shows "countLeft (reset_event d t) = maxCount t"
    and "maxCount (reset_event d t) = maxCount t"
    and "queue (reset_event d t) = []"
  by (cases d; cases "maxCount t = 0"; cases "maxCount t = countLeft t";
      simp add: hook_defs flush.simps)+



subsection \<open>Reset\<close>

text \<open>
  C8. Calling reset twice in succession is the same as calling it once: after the first
  call \<open>countLeft\<close> is the cycle length, and the second call leaves the whole state as the
  first left it, whether the second call comes after the update cycle of the first or
  before its render. This holds in every state of both hook variants.
\<close>

theorem reset_idempotent:
  "reset_event d (reset_event d t) = reset_event d t
   \<and> flush d (reset (reset t)) = reset_event d t
   \<and> countLeft (reset_event d t) = maxCount t
   \<and> countLeft (reset_event d (reset_event d t)) = maxCount t"
proof -
  let ?s = "reset_event d t"
  have q: "queue ?s = []" and c: "countLeft ?s = maxCount t" and m: "maxCount ?s = maxCount t"
    by (simp_all add: reset_ev)
  have "reset_event d ?s = (reset ?s)\<lparr>queue := []\<rparr>"
    unfolding reset_event_def [of d ?s]
    by (rule flush_same) (simp_all add: reset_def setCountLeft_def next_state_def q c m)
  also have "\<dots> = ?s"
    by (simp add: reset_def setCountLeft_def q)
  finally have once: "reset_event d ?s = ?s" .
  have "commit d (reset (reset t)) = commit d (reset t)"
    by (simp add: commit_def render_def reset_def setCountLeft_def next_state_def)
  then have "flush d (reset (reset t)) = flush d (reset t)"
    by (subst (1 2) flush.simps) (simp add: reset_def setCountLeft_def next_state_def)
  then have twice: "flush d (reset (reset t)) = reset_event d t"
    by (simp add: reset_event_def)
  from once twice c show ?thesis by simp
qed

subsection \<open>The cycle\<close>




subsection \<open>The range of the counter\<close>






subsection \<open>Construction with any cycle length\<close>

lemmas class_defs = Timer_tick_event_def Timer_reset_event_def Timer_receive_props_def
  Timer_tick_def Timer_reset_def setState_def componentDidUpdate_def Timer_render_def

lemma mount_scheduler:
  "snd (mount d m h) = h\<lparr>issued := Suc (issued h), live := Suc (issued h) # live h\<rparr>"
  by (simp add: mount_def setInterval_def)

lemma Timer_mount_result:
  "Timer_mount props h =
     ((Timer_constructor props)\<lparr>this_timerId := Some (Suc (issued h))\<rparr>,
      h\<lparr>issued := Suc (issued h), live := Suc (issued h) # live h\<rparr>)"
  by (simp add: Timer_mount_def componentDidMount_def setInterval_def)

text \<open>
  C4, as the code has it. Construction checks nothing: for every cycle length \<open>m\<close>,
  positive or not, it succeeds, creates the counter with \<open>countLeft = m\<close> and registers
  the interval. No variant has a branch that raises.
\<close>

theorem construction_unchecked:
  "maxCount (fst (mount d m h)) = m \<and> countLeft (fst (mount d m h)) = m
   \<and> timerId (fst (mount d m h)) = Some (Suc (issued h))
   \<and> live (snd (mount d m h)) = Suc (issued h) # live h
   \<and> initialCount (fst (Timer_mount (Some m) h)) = m
   \<and> state_countLeft (fst (Timer_mount (Some m) h)) = m
   \<and> this_timerId (fst (Timer_mount (Some m) h)) = Some (Suc (issued h))
   \<and> live (snd (Timer_mount (Some m) h)) = Suc (issued h) # live h"
  by (simp add: mount_state mount_scheduler Timer_mount_result Timer_constructor_def)

text \<open>
  C4, as stated, fails: constructed with the cycle length \<open>-5\<close> (or 0), each variant
  yields an instance with that counter and a running interval, and the next tick takes the
  counter from \<open>-5\<close> to \<open>-6\<close>.
\<close>

theorem nonpositive_cycle_length_accepted:
  "countLeft (fst (Timer (Some (- 5)) idle)) = - 5
   \<and> live (snd (Timer (Some (- 5)) idle)) = [1]
   \<and> countLeft (tick_event EveryRender (fst (Timer (Some (- 5)) idle))) = - 6
   \<and> countLeft (fst (useTimer 0 idle)) = 0
   \<and> live (snd (useTimer 0 idle)) = [1]
   \<and> state_countLeft (fst (Timer_mount (Some (- 5)) idle)) = - 5
   \<and> live (snd (Timer_mount (Some (- 5)) idle)) = [1]
   \<and> map_option state_countLeft (Timer_tick_event (fst (Timer_mount (Some (- 5)) idle)))
       = Some (- 6)"
  by (simp add: Timer_def useTimer_def maxCount_default_def mount_state mount_scheduler
      Timer_mount_result Timer_constructor_def idle_def hook_defs flush.simps class_defs
      Timer_update.simps)

subsection \<open>Below zero\<close>







subsection \<open>Ticks apply to the current value\<close>




subsection \<open>The target of reset\<close>







subsection \<open>Releasing the interval\<close>

text \<open>
  C5, as the code has it. With a handle stored, \<^verbatim>\<open>componentWillUnmount\<close> calls
  \<^verbatim>\<open>clearInterval\<close> on it and leaves the instance, and so the stored handle, as it was;
  the handle is no longer registered afterwards. A second call in succession calls
  \<^verbatim>\<open>clearInterval\<close> with the same handle again, which leaves the registered timers as
  they are. Only an instance that was never mounted, with no handle stored, makes no call.
  The cleanup of the hook variants calls \<^verbatim>\<open>clearInterval\<close> each time it is called.
\<close>

theorem unmount_twice:
  "(this_timerId c = Some i \<and> i \<noteq> 0 \<longrightarrow>
      fst (componentWillUnmount c h) = c
      \<and> i \<notin> set (live (snd (componentWillUnmount c h)))
      \<and> cleared (snd (componentWillUnmount c h)) = cleared h @ [i]
      \<and> fst (case_prod componentWillUnmount (componentWillUnmount c h)) = c
      \<and> live (snd (case_prod componentWillUnmount (componentWillUnmount c h)))
          = live (snd (componentWillUnmount c h))
      \<and> cleared (snd (case_prod componentWillUnmount (componentWillUnmount c h)))
          = cleared h @ [i, i])
   \<and> (this_timerId c = None \<longrightarrow> componentWillUnmount c h = (c, h))
   \<and> (timerId t = Some i \<longrightarrow>
      i \<notin> set (live (cleanup t h))
      \<and> cleared (cleanup t h) = cleared h @ [i]
      \<and> live (cleanup t (cleanup t h)) = live (cleanup t h)
      \<and> cleared (cleanup t (cleanup t h)) = cleared h @ [i, i])"
  by (simp add: componentWillUnmount_def cleanup_def clearInterval_def)

theorem unmount_twice_witness:
  "this_timerId (fst (Timer_mount (Some 3) idle)) = Some 1 \<and> (1::nat) \<noteq> 0
   \<and> fst (case_prod componentWillUnmount (Timer_mount (Some 3) idle))
       = fst (Timer_mount (Some 3) idle)
   \<and> 1 \<notin> set (live (snd (case_prod componentWillUnmount (Timer_mount (Some 3) idle))))
   \<and> live (snd (case_prod componentWillUnmount
        (case_prod componentWillUnmount (Timer_mount (Some 3) idle)))) = []
   \<and> this_timerId (Timer_constructor (Some 3)) = None
   \<and> componentWillUnmount (Timer_constructor (Some 3)) idle
       = (Timer_constructor (Some 3), idle)
   \<and> timerId (fst (useTimer 3 idle)) = Some 1
   \<and> live (cleanup (fst (useTimer 3 idle)) (snd (useTimer 3 idle))) = []
   \<and> cleared (cleanup (fst (useTimer 3 idle))
        (cleanup (fst (useTimer 3 idle)) (snd (useTimer 3 idle)))) = [1, 1]"
  using unmount_twice [where c = "fst (Timer_mount (Some 3) idle)" and i = 1
      and h = "snd (Timer_mount (Some 3) idle)" and t = "fst (useTimer 3 idle)"]
    unmount_twice [where c = "Timer_constructor (Some 3)" and i = 1
      and h = idle and t = "fst (useTimer 3 idle)"]
  by (simp add: Timer_mount_result Timer_constructor_def idle_def useTimer_def mount_state
      mount_scheduler componentWillUnmount_def cleanup_def clearInterval_def)

text \<open>
  C5, as stated, fails: after the first \<^verbatim>\<open>componentWillUnmount\<close> the instance still
  stores the handle 1, and the second call in succession calls \<^verbatim>\<open>clearInterval\<close> again,
  so that it has been called twice.
\<close>

theorem handle_kept_after_unmount:
  "this_timerId (fst (case_prod componentWillUnmount (Timer_mount (Some 3) idle))) = Some 1
   \<and> cleared (snd (case_prod componentWillUnmount (Timer_mount (Some 3) idle))) = [1]
   \<and> cleared (snd (case_prod componentWillUnmount
        (case_prod componentWillUnmount (Timer_mount (Some 3) idle)))) = [1, 1]"
  by (simp add: Timer_mount_result Timer_constructor_def idle_def componentWillUnmount_def
      clearInterval_def)

end
